theory Spec2Isabelle
  imports Complex_Main
begin

section \<open>The AI service interfaces of the robot (API_AI_Design.py)\<close>

text \<open>
  The module declares three data classes (BoundingBox, RobotPose, AI_Service_Status) and four
  service classes (ASR_API, TTS_API, CV_API, Navigation_API) whose methods are mock
  implementations: each prints one line and returns a fixed value.

  The embedding keeps what a caller can observe of a call: the value returned or the
  exception raised, and the object after the call. The text written by \<open>print\<close> is not part
  of the model; the evaluation of the printed expression is, because it is the only place
  where a method inspects its arguments (\<open>len(audio_data)\<close>, \<open>image_frame.shape\<close>,
  \<open>target_pose.x\<close>) and therefore the only place where a call can raise.

  Python does not check the annotations of parameters. A parameter that a body inspects or
  does not use at all is therefore any value. A parameter that a body only converts to text
  for the printed line (\<open>text\<close>, \<open>object_list\<close>) is taken at its annotated type: the
  conversion of a \<open>str\<close>, of \<open>None\<close> or of a list of \<open>str\<close> cannot raise, while that of
  other values can (an integer beyond the interpreter's digit limit, a list nested beyond its
  recursion limit), at bounds the module does not fix.
\<close>

subsection \<open>Data classes\<close>

text \<open>Python integers are unbounded: the four coordinates are of type \<open>int\<close>.\<close>

record BoundingBox =
  x_min :: int
  y_min :: int
  x_max :: int
  y_max :: int

text \<open>
  The attributes of RobotPose are \<open>x\<close>, \<open>y\<close> and \<open>theta\<close>; the selectors carry the prefix
  \<open>pose_\<close>. The source does no arithmetic on these floats (it only stores and prints them),
  so each is carried as the number it denotes.
\<close>

record RobotPose =
  pose_x :: real
  pose_y :: real
  pose_theta :: real

record AI_Service_Status =
  service_name :: string
  is_ready :: bool
  error_message :: "string option"

text \<open>\<open>AI_Service_Status.__init__\<close>; the third parameter defaults to \<open>None\<close>.\<close>

definition AI_Service_Status_init :: "string \<Rightarrow> bool \<Rightarrow> string option \<Rightarrow> AI_Service_Status" where
  "AI_Service_Status_init name ready msg =
     \<lparr>service_name = name, is_ready = ready, error_message = msg\<rparr>"

definition BoundingBox_init :: "int \<Rightarrow> int \<Rightarrow> int \<Rightarrow> int \<Rightarrow> BoundingBox" where
  "BoundingBox_init a b c d = \<lparr>x_min = a, y_min = b, x_max = c, y_max = d\<rparr>"

definition RobotPose_init :: "real \<Rightarrow> real \<Rightarrow> real \<Rightarrow> RobotPose" where
  "RobotPose_init a b t = \<lparr>pose_x = a, pose_y = b, pose_theta = t\<rparr>"

subsection \<open>Python values\<close>

text \<open>
  A NumPy array as the module uses it: a shape, an element type and the elements in row-major
  order. \<open>np.zeros((100, 100, 3), dtype=np.uint8)\<close> and \<open>np.array([[0]], dtype=np.int8)\<close> are
  the two arrays the module builds.
\<close>

datatype dtype = int8 | uint8

record ndarray =
  shape :: "nat list"
  dtype :: dtype
  data :: "int list"

type_synonym bytes = "char list"

text \<open>
  The values an inspected or unused argument can be. A dictionary is an association list in
  insertion order.
\<close>

datatype pyval =
    PyNone
  | PyInt int
  | PyFloat real
  | PyStr string
  | PyBytes bytes
  | PyList "pyval list"
  | PyDict "(string \<times> pyval) list"
  | PyNdarray ndarray
  | PyRobotPose RobotPose

type_synonym pydict = "(string \<times> pyval) list"

datatype py_error = TypeError | AttributeError

text \<open>The outcome of a call: \<open>Inl\<close> the exception raised, \<open>Inr\<close> the value returned.\<close>

type_synonym 'a outcome = "py_error + 'a"

text \<open>\<open>len(v)\<close>: defined for sized values; a 0-dimensional array is unsized.\<close>

fun py_len :: "pyval \<Rightarrow> nat outcome" where
  "py_len (PyStr s) = Inr (length s)"
| "py_len (PyBytes b) = Inr (length b)"
| "py_len (PyList vs) = Inr (length vs)"
| "py_len (PyDict kvs) = Inr (length kvs)"
| "py_len (PyNdarray a) = (case shape a of [] \<Rightarrow> Inl TypeError | n # _ \<Rightarrow> Inr n)"
| "py_len _ = Inl TypeError"

text \<open>\<open>v.shape\<close>: only an array has the attribute.\<close>

fun attr_shape :: "pyval \<Rightarrow> (nat list) outcome" where
  "attr_shape (PyNdarray a) = Inr (shape a)"
| "attr_shape _ = Inl AttributeError"

text \<open>\<open>v.x\<close> and \<open>v.y\<close>: only a RobotPose has the attributes.\<close>

fun attr_x :: "pyval \<Rightarrow> real outcome" where
  "attr_x (PyRobotPose p) = Inr (pose_x p)"
| "attr_x _ = Inl AttributeError"

fun attr_y :: "pyval \<Rightarrow> real outcome" where
  "attr_y (PyRobotPose p) = Inr (pose_y p)"
| "attr_y _ = Inl AttributeError"

subsection \<open>BoundingBox.to_dict\<close>

definition to_dict :: "BoundingBox \<Rightarrow> pydict" where
  "to_dict b =
     [(''x_min'', PyInt (x_min b)), (''y_min'', PyInt (y_min b)),
      (''x_max'', PyInt (x_max b)), (''y_max'', PyInt (y_max b))]"

text \<open>
  Modelled from the spec: the module has no deserializer for BoundingBox. The specification's
  deserialize step is read as the inverse direction of "serializes to a mapping with the four
  named fields": it looks the four names up in the mapping and builds the box from the
  integers found, and fails when a name is absent or its value is not an integer.
\<close>

definition from_dict :: "pydict \<Rightarrow> BoundingBox outcome" where
  "from_dict d =
     (case (map_of d ''x_min'', map_of d ''y_min'', map_of d ''x_max'', map_of d ''y_max'') of
        (Some (PyInt a), Some (PyInt b), Some (PyInt c), Some (PyInt e)) \<Rightarrow>
          Inr (BoundingBox_init a b c e)
      | _ \<Rightarrow> Inl TypeError)"

subsection \<open>The service classes\<close>

text \<open>
  None of the four classes has an \<open>__init__\<close> or assigns to \<open>self\<close>: an instance has no
  attributes. Every method takes the instance and returns the outcome together with the
  instance after the call.
\<close>

datatype ASR_API = ASR_API
datatype TTS_API = TTS_API
datatype CV_API = CV_API
datatype Navigation_API = Navigation_API

subsubsection \<open>ASR_API\<close>

text \<open>\<open>lang_code\<close> defaults to \<open>"ar-SA"\<close> and is not used by the body.\<close>

definition recognize_speech ::
    "ASR_API \<Rightarrow> pyval \<Rightarrow> pyval \<Rightarrow> (string option) outcome \<times> ASR_API" where
  "recognize_speech self audio_data lang_code =
     (case py_len audio_data of
        Inl e \<Rightarrow> (Inl e, self)
      | Inr n \<Rightarrow> (Inr (Some ''Dummy Recognized Text''), self))"

definition ASR_API_get_status :: "ASR_API \<Rightarrow> AI_Service_Status outcome \<times> ASR_API" where
  "ASR_API_get_status self = (Inr (AI_Service_Status_init ''ASR Service'' True None), self)"

subsubsection \<open>TTS_API\<close>


definition TTS_API_get_status :: "TTS_API \<Rightarrow> AI_Service_Status outcome \<times> TTS_API" where
  "TTS_API_get_status self = (Inr (AI_Service_Status_init ''TTS Service'' True None), self)"

subsubsection \<open>CV_API\<close>

definition detect_faces :: "CV_API \<Rightarrow> pyval \<Rightarrow> (pydict list) outcome \<times> CV_API" where
  "detect_faces self image_frame =
     (case attr_shape image_frame of
        Inl e \<Rightarrow> (Inl e, self)
      | Inr sh \<Rightarrow>
          (Inr [[(''bbox'', PyDict (to_dict (BoundingBox_init 0 0 10 10))),
                 (''confidence'', PyFloat 0),
                 (''id'', PyStr ''dummy'')]], self))"

text \<open>
  \<open>object_list\<close>, annotated \<open>Optional[List[str]]\<close> with the default \<open>None\<close>, is only
  interpolated into the printed line, after \<open>image_frame.shape\<close> has been read.
\<close>

definition recognize_object ::
    "CV_API \<Rightarrow> pyval \<Rightarrow> (string list) option \<Rightarrow> (pydict list) outcome \<times> CV_API" where
  "recognize_object self image_frame object_list =
     (case attr_shape image_frame of
        Inl e \<Rightarrow> (Inl e, self)
      | Inr sh \<Rightarrow> (Inr [], self))"

definition CV_API_get_status :: "CV_API \<Rightarrow> AI_Service_Status outcome \<times> CV_API" where
  "CV_API_get_status self = (Inr (AI_Service_Status_init ''CV Service'' True None), self)"

subsubsection \<open>Navigation_API\<close>

definition get_current_pose :: "Navigation_API \<Rightarrow> RobotPose outcome \<times> Navigation_API" where
  "get_current_pose self = (Inr (RobotPose_init 0 0 0), self)"

text \<open>The printed line reads \<open>target_pose.x\<close>, then \<open>target_pose.y\<close>.\<close>

definition set_goal_pose :: "Navigation_API \<Rightarrow> pyval \<Rightarrow> bool outcome \<times> Navigation_API" where
  "set_goal_pose self target_pose =
     (case attr_x target_pose of
        Inl e \<Rightarrow> (Inl e, self)
      | Inr px \<Rightarrow>
          (case attr_y target_pose of
             Inl e \<Rightarrow> (Inl e, self)
           | Inr py \<Rightarrow> (Inr True, self)))"

definition cancel_navigation :: "Navigation_API \<Rightarrow> bool outcome \<times> Navigation_API" where
  "cancel_navigation self = (Inr True, self)"

definition get_map_data :: "Navigation_API \<Rightarrow> (ndarray option) outcome \<times> Navigation_API" where
  "get_map_data self = (Inr (Some \<lparr>shape = [1, 1], dtype = int8, data = [0]\<rparr>), self)"

definition Navigation_API_get_status ::
    "Navigation_API \<Rightarrow> AI_Service_Status outcome \<times> Navigation_API" where
  "Navigation_API_get_status self =
     (Inr (AI_Service_Status_init ''Navigation Service'' True None), self)"

text \<open>
  The goal states the specification names for the navigation service. The module declares no
  such type and stores no such value; the type only serves to state what would have to be
  read off a Navigation_API object.
\<close>

datatype nav_state = IDLE | NAVIGATING | SUCCEEDED | CANCELLED | FAILED

section \<open>Properties\<close>

subsection \<open>The inspected arguments\<close>

lemma attr_shape_ndarray: "attr_shape (PyNdarray a) = Inr (shape a)"
  by simp

lemma attr_shape_Inr_iff: "(\<exists>sh. attr_shape v = Inr sh) = (\<exists>a. v = PyNdarray a)"
  by (cases v) simp_all

lemma detect_faces_not_array: "detect_faces self PyNone = (Inl AttributeError, self)"
  by (simp add: detect_faces_def)

lemma recognize_speech_unsized: "recognize_speech self (PyInt 3) lang = (Inl TypeError, self)"
  by (simp add: recognize_speech_def)

lemma to_dict_inj: "(to_dict b = to_dict b') = (b = b')"
  by (cases b, cases b') (auto simp: to_dict_def)

subsection \<open>Speech recognition on empty audio\<close>

text \<open>
  Claim C1, as stated: for the empty audio input \<open>b""\<close> with language code \<open>"ar-SA"\<close>,
  \<open>recognize_speech\<close> returns \<open>None\<close> and does not raise. The mock returns its fixed text for
  every sized argument, the empty byte string included, so the value returned is not \<open>None\<close>.
\<close>

theorem recognize_speech_empty_counterexample:
  "fst (recognize_speech ASR_API (PyBytes []) (PyStr ''ar-SA'')) \<noteq> Inr None"
  by (simp add: recognize_speech_def)

text \<open>
  Claim C1, amended: for the empty audio input \<open>b""\<close> with language code \<open>"ar-SA"\<close>,
  \<open>recognize_speech\<close> does not raise and returns the text \<open>"Dummy Recognized Text"\<close>; the
  ASR_API object is as before the call.
\<close>

theorem recognize_speech_empty_dummy:
  "recognize_speech ASR_API (PyBytes []) (PyStr ''ar-SA'') =
     (Inr (Some ''Dummy Recognized Text''), ASR_API)"
  by (simp add: recognize_speech_def)

subsection \<open>Navigation goals\<close>

text \<open>
  Claim C2, as stated: after a \<open>set_goal_pose\<close> that returns true the navigation state is
  NAVIGATING, and after \<open>cancel_navigation\<close> it is CANCELLED. With the pose of the module's
  demonstration, \<open>RobotPose(x=1.0, y=1.0, theta=0.0)\<close>, \<open>set_goal_pose\<close> returns true; but
  the object after the following \<open>cancel_navigation\<close> is the object \<open>set_goal_pose\<close> left,
  so no state read off the object is NAVIGATING at the first point and CANCELLED at the
  second.
\<close>

theorem nav_state_counterexample:
  "fst (set_goal_pose Navigation_API (PyRobotPose (RobotPose_init 1 1 0))) = Inr True \<and>
   \<not> (\<exists>st :: Navigation_API \<Rightarrow> nav_state.
        st (snd (set_goal_pose Navigation_API (PyRobotPose (RobotPose_init 1 1 0)))) =
          NAVIGATING \<and>
        st (snd (cancel_navigation
              (snd (set_goal_pose Navigation_API (PyRobotPose (RobotPose_init 1 1 0)))))) =
          CANCELLED)"
  by (simp add: set_goal_pose_def cancel_navigation_def)

text \<open>
  Claim C2, amended: \<open>set_goal_pose\<close> returns true for every RobotPose (with float
  coordinates, as the class declares them) and \<open>cancel_navigation\<close> returns true; neither changes the Navigation_API object, which holds no
  navigation state; and a \<open>set_goal_pose\<close> that follows a \<open>cancel_navigation\<close> returns true
  again.
\<close>

theorem nav_calls_keep_object:
  "set_goal_pose self (PyRobotPose p) = (Inr True, self) \<and>
   cancel_navigation self = (Inr True, self) \<and>
   set_goal_pose (snd (cancel_navigation self)) (PyRobotPose p) = (Inr True, self)"
  by (simp add: set_goal_pose_def cancel_navigation_def)

subsection \<open>Speech synthesis\<close>


subsection \<open>Vision\<close>

text \<open>
  Claim C4: for every image frame (an array, whatever its shape and contents, so in
  particular one that shows no cup) and the label list \<open>["cup"]\<close>, \<open>recognize_object\<close> returns
  the empty list and does not raise.
\<close>

theorem recognize_object_cup_empty:
  "recognize_object self (PyNdarray frame) (Some [''cup'']) = (Inr [], self)"
  by (simp add: recognize_object_def)

text \<open>
  Claim C5: for every image buffer (an array), \<open>detect_faces\<close> and \<open>recognize_object\<close>, the
  latter with \<open>None\<close> or any list of label strings as its \<open>object_list\<close>, return a list
  and do not raise.
\<close>

theorem cv_methods_return_sequence:
  "(\<exists>ds. fst (detect_faces self (PyNdarray frame)) = Inr ds) \<and>
   (\<exists>ds. fst (recognize_object self (PyNdarray frame) object_list) = Inr ds)"
  by (simp add: detect_faces_def recognize_object_def)

text \<open>
  Claim C10: for every image frame, \<open>detect_faces\<close> returns exactly one detection, with the
  bounding box (0, 0, 10, 10), the confidence 0.0 and the id \<open>"dummy"\<close>, hence never the
  empty list; and \<open>get_map_data\<close> always returns a 1-by-1 grid that holds 0, never \<open>None\<close>.
\<close>

theorem detect_faces_dummy_and_map:
  "detect_faces self (PyNdarray frame) =
     (Inr [[(''bbox'', PyDict [(''x_min'', PyInt 0), (''y_min'', PyInt 0),
                               (''x_max'', PyInt 10), (''y_max'', PyInt 10)]),
            (''confidence'', PyFloat 0),
            (''id'', PyStr ''dummy'')]], self) \<and>
   fst (detect_faces self (PyNdarray frame)) \<noteq> Inr [] \<and>
   get_map_data nav = (Inr (Some \<lparr>shape = [1, 1], dtype = int8, data = [0]\<rparr>), nav) \<and>
   fst (get_map_data nav) \<noteq> Inr None"
  by (simp add: detect_faces_def to_dict_def BoundingBox_init_def get_map_data_def)

subsection \<open>Bounding boxes\<close>

text \<open>
  Claim C6: serializing a BoundingBox with \<open>to_dict\<close> gives a mapping with the four names
  \<open>x_min\<close>, \<open>y_min\<close>, \<open>x_max\<close>, \<open>y_max\<close>, and deserializing that mapping gives back a box
  with the same four fields. This holds for every box, so in particular for those with
  \<open>x_min \<le> x_max\<close> and \<open>y_min \<le> y_max\<close>.
\<close>

theorem bbox_roundtrip:
  "from_dict (to_dict b) = Inr b \<and>
   map fst (to_dict b) = [''x_min'', ''y_min'', ''x_max'', ''y_max'']"
  by (simp add: from_dict_def to_dict_def BoundingBox_init_def)

subsection \<open>Service status\<close>

text \<open>
  Claim C7: for each of the four services, \<open>get_status\<close> yields a status, and a second
  \<open>get_status\<close>, called on the object the first call left, yields a status with the same
  \<open>service_name\<close>, \<open>is_ready\<close> and \<open>error_message\<close>; neither call raises.
\<close>

theorem get_status_twice_equal:
  "(\<exists>st1 st2.
      fst (ASR_API_get_status asr) = Inr st1 \<and>
      fst (ASR_API_get_status (snd (ASR_API_get_status asr))) = Inr st2 \<and>
      service_name st1 = service_name st2 \<and> is_ready st1 = is_ready st2 \<and>
      error_message st1 = error_message st2) \<and>
   (\<exists>st1 st2.
      fst (TTS_API_get_status tts) = Inr st1 \<and>
      fst (TTS_API_get_status (snd (TTS_API_get_status tts))) = Inr st2 \<and>
      service_name st1 = service_name st2 \<and> is_ready st1 = is_ready st2 \<and>
      error_message st1 = error_message st2) \<and>
   (\<exists>st1 st2.
      fst (CV_API_get_status cv) = Inr st1 \<and>
      fst (CV_API_get_status (snd (CV_API_get_status cv))) = Inr st2 \<and>
      service_name st1 = service_name st2 \<and> is_ready st1 = is_ready st2 \<and>
      error_message st1 = error_message st2) \<and>
   (\<exists>st1 st2.
      fst (Navigation_API_get_status nav) = Inr st1 \<and>
      fst (Navigation_API_get_status (snd (Navigation_API_get_status nav))) = Inr st2 \<and>
      service_name st1 = service_name st2 \<and> is_ready st1 = is_ready st2 \<and>
      error_message st1 = error_message st2)"
  by (simp add: ASR_API_get_status_def TTS_API_get_status_def CV_API_get_status_def
      Navigation_API_get_status_def)

text \<open>
  Claim C8: the statuses the program produces are those the four \<open>get_status\<close> methods
  return. For each of them \<open>error_message\<close> is non-null only when \<open>is_ready\<close> is false; put
  the other way round, a status that is ready has no error message.
\<close>

theorem status_invariant:
  assumes "Inr st \<in> {fst (ASR_API_get_status asr), fst (TTS_API_get_status tts),
                     fst (CV_API_get_status cv), fst (Navigation_API_get_status nav)}"
    and "is_ready st"
  shows "error_message st = None"
  using assms
  by (auto simp: ASR_API_get_status_def TTS_API_get_status_def CV_API_get_status_def
      Navigation_API_get_status_def AI_Service_Status_init_def)

text \<open>
  Claim C8 at the status of the speech recognition service: it is one of the four, it is
  ready, and it has no error message.
\<close>

theorem status_invariant_witness:
  "Inr (AI_Service_Status_init ''ASR Service'' True None) \<in>
     {fst (ASR_API_get_status ASR_API), fst (TTS_API_get_status TTS_API),
      fst (CV_API_get_status CV_API), fst (Navigation_API_get_status Navigation_API)} \<and>
   is_ready (AI_Service_Status_init ''ASR Service'' True None) \<and>
   error_message (AI_Service_Status_init ''ASR Service'' True None) = None"
proof -
  let ?st = "AI_Service_Status_init ''ASR Service'' True None"
  have m: "Inr ?st \<in> {fst (ASR_API_get_status ASR_API), fst (TTS_API_get_status TTS_API),
      fst (CV_API_get_status CV_API), fst (Navigation_API_get_status Navigation_API)}"
    by (simp add: ASR_API_get_status_def)
  have r: "is_ready ?st"
    by (simp add: AI_Service_Status_init_def)
  from status_invariant [OF m r] m r show ?thesis by simp
qed

subsection \<open>Cancelling navigation\<close>

text \<open>
  Claim C9: \<open>cancel_navigation\<close> returns true on every Navigation_API object and leaves the
  object as it was: on one for which no goal has been set, and on the object left by any
  call of \<open>set_goal_pose\<close>.
\<close>

theorem cancel_navigation_true:
  "fst (cancel_navigation self) = Inr True \<and>
   snd (cancel_navigation self) = self \<and>
   fst (cancel_navigation (snd (set_goal_pose self target_pose))) = Inr True"
  by (simp add: cancel_navigation_def)

end
